theory Spec2Isabelle
  imports Complex_Main
begin

section \<open>DisplayShelf: a shelf with slanted floors\<close>

text \<open>
  A shallow embedding of \<^verbatim>\<open>src/boxes/generators/displayshelf.py\<close>.

  Python floats are modelled as HOL reals, so \<^verbatim>\<open>math.sin\<close>, \<^verbatim>\<open>math.cos\<close>,
  \<^verbatim>\<open>math.tan\<close> and \<^verbatim>\<open>math.sqrt\<close> are the real functions and rounding and overflow
  are not modelled. The two readings part where a division is guarded: over the reals
  \<open>cos\<close> vanishes at 90 degrees and \<open>sin\<close> at 180, while their floating-point values
  there are tiny and not zero; and a float power can overflow, and an infinite angle is
  outside the domain of \<^verbatim>\<open>math.cos\<close>. They agree on which division fails for every angle
  strictly between -90 and 90, where \<open>cos\<close> is positive and \<open>sin\<close> vanishes at 0 only.
  Wherever it is stated below that a run raises, or that it completes, it is stated for
  such angles; what is stated about the parts of a run is stated of a run that completes.
  The attributes the generator reads and writes on \<^verbatim>\<open>self\<close> form a
  record; the drawing surface of the framework is the list of parts emitted so far.
  A Python exception is a value of type \<open>error\<close>: every procedure that can raise returns
  the exception (if any) together with the object as it is at that moment.
\<close>

subsection \<open>Data\<close>

datatype error = ZeroDivisionError | ValueError

text \<open>One call \<^verbatim>\<open>self.fingerHolesAt(x, y, length, angle)\<close>.\<close>

datatype hole = FingerHolesAt (hole_x: real) (hole_y: real) (hole_length: real) (hole_angle: real)

text \<open>
  One call of a wall primitive of the framework, with the arguments the generator passes:
  \<^verbatim>\<open>rectangularWall(x, y, edges, callback, move, label)\<close> and
  \<^verbatim>\<open>polygonWall(borders, edge, callback, move, label)\<close>. The callback slot holds the hole
  requests that the callback issues when the framework runs it for this wall.
\<close>

datatype part =
    RectangularWall (wall_x: real) (wall_y: real) (part_edges: string)
      (part_callback: "hole list") (part_move: string) (part_label: string)
  | PolygonWall (wall_borders: "real list") (part_edges: string)
      (part_callback: "hole list") (part_move: string) (part_label: string)

record DisplayShelf =
  self_x :: real
  self_y :: real
  self_h :: real
  self_outside :: bool
  self_thickness :: real
  self_num :: int
  self_front_wall_height :: real
  self_angle :: real
  self_include_back :: bool
  self_slope_top :: bool
  self_radians :: real
  self_sl :: real
  self_parts :: "part list"

subsection \<open>Library functions of Python\<close>

definition math_radians :: "real \<Rightarrow> real" where
  "math_radians d = d * pi / 180"

text \<open>\<^verbatim>\<open>range(n)\<close> for an integer \<open>n\<close>: empty when \<open>n \<le> 0\<close>.\<close>

definition py_range :: "int \<Rightarrow> nat list" where
  "py_range n = [0..<nat n]"

text \<open>The decimal numeral of a natural number, as an f-string prints it.\<close>

fun str_nat :: "nat \<Rightarrow> string" where
  "str_nat n =
     (if n < 10 then [''0123456789'' ! n]
      else str_nat (n div 10) @ [''0123456789'' ! (n mod 10)])"

declare str_nat.simps [simp del]

subsection \<open>The wall primitives of the framework\<close>

definition rectangularWall ::
  "DisplayShelf \<Rightarrow> real \<Rightarrow> real \<Rightarrow> string \<Rightarrow> hole list \<Rightarrow> string \<Rightarrow> string \<Rightarrow> DisplayShelf" where
  "rectangularWall self x y edges callback move label =
     self\<lparr>self_parts := self_parts self @ [RectangularWall x y edges callback move label]\<rparr>"

definition polygonWall ::
  "DisplayShelf \<Rightarrow> real list \<Rightarrow> string \<Rightarrow> hole list \<Rightarrow> string \<Rightarrow> string \<Rightarrow> DisplayShelf" where
  "polygonWall self borders edge callback move label =
     self\<lparr>self_parts := self_parts self @ [PolygonWall borders edge callback move label]\<rparr>"

text \<open>
  \<^verbatim>\<open>polygonWall\<close> reads \<^verbatim>\<open>borders\<close> as alternating edge lengths and turn angles:
  the edges of the polygon are the entries at even positions, the turns those at odd ones.
\<close>

fun border_lengths :: "real list \<Rightarrow> real list" where
  "border_lengths (l # a # rest) = l # border_lengths rest"
| "border_lengths [l] = [l]"
| "border_lengths [] = []"


subsection \<open>generate_finger_holes\<close>

text \<open>The body of the loop, for the index \<open>i\<close>: the two requests it issues, in order.\<close>

definition finger_holes_at_index :: "DisplayShelf \<Rightarrow> real \<Rightarrow> nat \<Rightarrow> hole list" where
  "finger_holes_at_index self hs i =
     (let t = self_thickness self;
          a = self_radians self;
          px = \<bar>0.5 * t * sin a\<bar>;
          py = hs - cos a * 0.5 * t
                 + real i * (self_h self - \<bar>hs\<bar>) / (real_of_int (self_num self) - 0.5);
          py = (if a < 0 then py + - sin a * self_sl self else py);
          seat = FingerHolesAt px py (self_sl self) (- self_angle self);
          px = px + (cos (- a) * (self_sl self + 0.5 * t) + sin a * 0.5 * t);
          py = py + (sin (- a) * (self_sl self + 0.5 * t) + cos a * 0.5 * t);
          lip = FingerHolesAt px py (self_front_wall_height self) (90 - self_angle self)
      in [seat, lip])"

fun finger_holes_loop :: "DisplayShelf \<Rightarrow> real \<Rightarrow> nat list \<Rightarrow> hole list" where
  "finger_holes_loop self hs [] = []"
| "finger_holes_loop self hs (i # rest) =
     finger_holes_at_index self hs i @ finger_holes_loop self hs rest"

definition generate_finger_holes :: "DisplayShelf \<Rightarrow> hole list" where
  "generate_finger_holes self =
     (let t = self_thickness self;
          a = self_radians self;
          hs = (self_sl self + t) * sin a + cos a * t
      in finger_holes_loop self hs (py_range (self_num self)))"

subsection \<open>generate_sloped_sides\<close>

text \<open>
  The two divisions and the square root of a difference are the places where Python can
  raise in exact arithmetic; in floating point the squares can overflow as well. All of
  them come before the first wall is drawn. \<^verbatim>\<open>math.tan\<close> is reached from \<open>render\<close>
  only when \<open>cos a \<noteq> 0\<close>.
\<close>

definition generate_sloped_sides ::
  "DisplayShelf \<Rightarrow> real \<Rightarrow> real \<Rightarrow> error option \<times> DisplayShelf" where
  "generate_sloped_sides self width height =
     (if self_num self = 0 then (Some ZeroDivisionError, self)
      else
        let top_segment_height = height / real_of_int (self_num self);
            a = self_radians self;
            vertical_cut = top_segment_height - self_front_wall_height self
        in
          if sin a = 0 then (Some ZeroDivisionError, self)
          else
            let hypotenuse = vertical_cut / sin a in
              if hypotenuse ^ 2 - vertical_cut ^ 2 < 0 then (Some ValueError, self)
              else
                let horizontal_cut = sqrt (hypotenuse ^ 2 - vertical_cut ^ 2);
                    shrink = (horizontal_cut > width);
                    horizontal_cut = (if shrink then width - 1 else horizontal_cut);
                    vertical_cut = (if shrink then horizontal_cut * tan a else vertical_cut);
                    hypotenuse =
                      (if shrink then sqrt (horizontal_cut ^ 2 + vertical_cut ^ 2)
                       else hypotenuse);
                    top = width - horizontal_cut;
                    front = height - vertical_cut;
                    borders =
                      [width, 90, front, 90 - self_angle self, hypotenuse, self_angle self,
                       top, 90, height, 90];
                    edges = (if self_include_back self then ''eeeef'' else ''e'');
                    self = polygonWall self borders edges (generate_finger_holes self)
                             ''up'' ''left side'';
                    self = polygonWall self borders edges (generate_finger_holes self)
                             ''up'' ''right side''
                in (None, self))"

subsection \<open>generate_rectangular_sides\<close>

definition generate_rectangular_sides :: "DisplayShelf \<Rightarrow> real \<Rightarrow> real \<Rightarrow> DisplayShelf" where
  "generate_rectangular_sides self width height =
     (let edges = ''eeee'';
          edges = (if self_include_back self then ''eeef'' else edges);
          self = rectangularWall self width height edges (generate_finger_holes self)
                   ''up'' ''left side'';
          self = rectangularWall self width height edges (generate_finger_holes self)
                   ''up'' ''right side''
      in self)"

subsection \<open>generate_shelves\<close>

fun shelves_with_lips :: "DisplayShelf \<Rightarrow> nat list \<Rightarrow> DisplayShelf" where
  "shelves_with_lips self [] = self"
| "shelves_with_lips self (i # rest) =
     (let self = rectangularWall self (self_x self) (self_sl self) ''ffef'' []
                   ''up'' (''shelf '' @ str_nat (i + 1));
          self = rectangularWall self (self_x self) (self_front_wall_height self) ''Ffef'' []
                   ''up'' (''front lip '' @ str_nat (i + 1))
      in shelves_with_lips self rest)"

fun shelves_without_lips :: "DisplayShelf \<Rightarrow> nat list \<Rightarrow> DisplayShelf" where
  "shelves_without_lips self [] = self"
| "shelves_without_lips self (i # rest) =
     (let self = rectangularWall self (self_x self) (self_sl self) ''Efef'' []
                   ''up'' (''shelf '' @ str_nat (i + 1))
      in shelves_without_lips self rest)"

text \<open>\<^verbatim>\<open>if self.front_wall_height:\<close> is the truth value of a float: true unless it is zero.\<close>

definition generate_shelves :: "DisplayShelf \<Rightarrow> DisplayShelf" where
  "generate_shelves self =
     (if self_front_wall_height self \<noteq> 0
      then shelves_with_lips self (py_range (self_num self))
      else shelves_without_lips self (py_range (self_num self)))"

subsection \<open>render\<close>

text \<open>
  \<^verbatim>\<open>self.adjustSize\<close> belongs to the framework; it is a parameter of \<open>render\<close>. The locals
  \<^verbatim>\<open>x\<close> and \<^verbatim>\<open>y\<close> are adjusted, the attributes \<^verbatim>\<open>self.x\<close> and \<^verbatim>\<open>self.y\<close> are not
  assigned.
\<close>

definition render :: "(real \<Rightarrow> real) \<Rightarrow> DisplayShelf \<Rightarrow> error option \<times> DisplayShelf" where
  "render adjustSize self =
     (let x = self_x self; y = self_y self; h = self_h self;
          front = self_front_wall_height self;
          thickness = self_thickness self;
          x = (if self_outside self then adjustSize x else x);
          y = (if self_outside self \<and> self_include_back self then adjustSize y else y);
          a = math_radians (self_angle self);
          self = self\<lparr>self_radians := a\<rparr>
      in
        if cos a = 0 then (Some ZeroDivisionError, self)
        else
          let self = self\<lparr>self_sl :=
                       (y - thickness * (cos a + \<bar>sin a\<bar>) - max 0 (sin a * front)) / cos a\<rparr>;
              sides = (if self_slope_top self then generate_sloped_sides self y h
                       else (None, generate_rectangular_sides self y h))
          in
            case fst sides of
              Some e \<Rightarrow> (Some e, snd sides)
            | None \<Rightarrow>
                let self = generate_shelves (snd sides);
                    self = (if self_include_back self
                            then rectangularWall self x h ''eFeF'' [] ''up'' ''back wall''
                            else self)
                in (None, self))"

subsection \<open>The parts a run emits, in closed form\<close>

definition shelf_board :: "DisplayShelf \<Rightarrow> string \<Rightarrow> nat \<Rightarrow> part" where
  "shelf_board self edges i =
     RectangularWall (self_x self) (self_sl self) edges [] ''up'' (''shelf '' @ str_nat (i + 1))"

definition front_lip_board :: "DisplayShelf \<Rightarrow> nat \<Rightarrow> part" where
  "front_lip_board self i =
     RectangularWall (self_x self) (self_front_wall_height self) ''Ffef'' [] ''up''
       (''front lip '' @ str_nat (i + 1))"

definition shelf_parts :: "DisplayShelf \<Rightarrow> part list" where
  "shelf_parts self =
     (if self_front_wall_height self \<noteq> 0
      then concat (map (\<lambda>i. [shelf_board self ''ffef'' i, front_lip_board self i])
             (py_range (self_num self)))
      else map (shelf_board self ''Efef'') (py_range (self_num self)))"

text \<open>The depth and width that render works with, and the object after line 111.\<close>

definition used_depth :: "(real \<Rightarrow> real) \<Rightarrow> DisplayShelf \<Rightarrow> real" where
  "used_depth adjustSize self =
     (if self_outside self \<and> self_include_back self then adjustSize (self_y self)
      else self_y self)"

definition used_width :: "(real \<Rightarrow> real) \<Rightarrow> DisplayShelf \<Rightarrow> real" where
  "used_width adjustSize self =
     (if self_outside self then adjustSize (self_x self) else self_x self)"

definition resolved :: "(real \<Rightarrow> real) \<Rightarrow> DisplayShelf \<Rightarrow> DisplayShelf" where
  "resolved adjustSize self =
     (let a = math_radians (self_angle self) in
      self\<lparr>self_radians := a,
           self_sl := (used_depth adjustSize self
                        - self_thickness self * (cos a + \<bar>sin a\<bar>)
                        - max 0 (sin a * self_front_wall_height self)) / cos a\<rparr>)"

definition back_parts :: "(real \<Rightarrow> real) \<Rightarrow> DisplayShelf \<Rightarrow> part list" where
  "back_parts adjustSize self =
     (if self_include_back self
      then [RectangularWall (used_width adjustSize self) (self_h self) ''eFeF'' [] ''up''
              ''back wall'']
      else [])"

definition rectangular_sides :: "(real \<Rightarrow> real) \<Rightarrow> DisplayShelf \<Rightarrow> part list" where
  "rectangular_sides adjustSize self =
     (let s1 = resolved adjustSize self;
          edges = (if self_include_back self then ''eeef'' else ''eeee'')
      in [RectangularWall (used_depth adjustSize self) (self_h self) edges
            (generate_finger_holes s1) ''up'' ''left side'',
          RectangularWall (used_depth adjustSize self) (self_h self) edges
            (generate_finger_holes s1) ''up'' ''right side''])"

text \<open>The values of the locals of generate_sloped_sides, as functions of its arguments.\<close>

definition nominal_vertical_cut :: "DisplayShelf \<Rightarrow> real \<Rightarrow> real" where
  "nominal_vertical_cut self height =
     height / real_of_int (self_num self) - self_front_wall_height self"

definition nominal_hypotenuse :: "DisplayShelf \<Rightarrow> real \<Rightarrow> real" where
  "nominal_hypotenuse self height = nominal_vertical_cut self height / sin (self_radians self)"

definition nominal_horizontal_cut :: "DisplayShelf \<Rightarrow> real \<Rightarrow> real" where
  "nominal_horizontal_cut self height =
     sqrt ((nominal_hypotenuse self height) ^ 2 - (nominal_vertical_cut self height) ^ 2)"

definition final_horizontal_cut :: "DisplayShelf \<Rightarrow> real \<Rightarrow> real \<Rightarrow> real" where
  "final_horizontal_cut self width height =
     (if nominal_horizontal_cut self height > width then width - 1
      else nominal_horizontal_cut self height)"

definition final_vertical_cut :: "DisplayShelf \<Rightarrow> real \<Rightarrow> real \<Rightarrow> real" where
  "final_vertical_cut self width height =
     (if nominal_horizontal_cut self height > width
      then final_horizontal_cut self width height * tan (self_radians self)
      else nominal_vertical_cut self height)"

definition final_hypotenuse :: "DisplayShelf \<Rightarrow> real \<Rightarrow> real \<Rightarrow> real" where
  "final_hypotenuse self width height =
     (if nominal_horizontal_cut self height > width
      then sqrt ((final_horizontal_cut self width height) ^ 2
                   + (final_vertical_cut self width height) ^ 2)
      else nominal_hypotenuse self height)"

definition sloped_borders :: "DisplayShelf \<Rightarrow> real \<Rightarrow> real \<Rightarrow> real list" where
  "sloped_borders self width height =
     [width, 90, height - final_vertical_cut self width height, 90 - self_angle self,
      final_hypotenuse self width height, self_angle self,
      width - final_horizontal_cut self width height, 90, height, 90]"

definition sloped_sides :: "DisplayShelf \<Rightarrow> real \<Rightarrow> real \<Rightarrow> part list" where
  "sloped_sides self width height =
     (let edges = (if self_include_back self then ''eeeef'' else ''e'')
      in [PolygonWall (sloped_borders self width height) edges (generate_finger_holes self)
            ''up'' ''left side'',
          PolygonWall (sloped_borders self width height) edges (generate_finger_holes self)
            ''up'' ''right side''])"

definition side_parts :: "(real \<Rightarrow> real) \<Rightarrow> DisplayShelf \<Rightarrow> part list" where
  "side_parts adjustSize self =
     (if self_slope_top self
      then sloped_sides (resolved adjustSize self) (used_depth adjustSize self) (self_h self)
      else rectangular_sides adjustSize self)"

subsection \<open>An example configuration\<close>

text \<open>
  The defaults of the argument parser, with material of thickness 3, and an adjustment that
  takes two walls of that thickness off an outer measure.
\<close>

definition example_adjustSize :: "real \<Rightarrow> real" where
  "example_adjustSize l = l - 2 * 3"

definition example_shelf :: DisplayShelf where
  "example_shelf =
     \<lparr>self_x = 400, self_y = 100, self_h = 300, self_outside = True, self_thickness = 3,
      self_num = 3, self_front_wall_height = 20, self_angle = 30, self_include_back = False,
      self_slope_top = False, self_radians = 0, self_sl = 0, self_parts = []\<rparr>"

text \<open>The example without front walls.\<close>

definition example_without_lip :: DisplayShelf where
  "example_without_lip = example_shelf\<lparr>self_front_wall_height := 0\<rparr>"

text \<open>The example with sloped sides and level floors, and the example with no shelf at all.\<close>

definition example_level_sloped :: DisplayShelf where
  "example_level_sloped = example_shelf\<lparr>self_angle := 0, self_slope_top := True\<rparr>"

definition example_no_shelves :: DisplayShelf where
  "example_no_shelves = example_shelf\<lparr>self_num := 0\<rparr>"

subsection \<open>Telling the emitted parts apart\<close>

text \<open>
  The label a part was emitted with says what it is: \<^verbatim>\<open>shelf N\<close>, \<^verbatim>\<open>front lip N\<close>,
  \<^verbatim>\<open>back wall\<close>. The size of a rectangular wall is the pair of its first two arguments.
\<close>

definition is_shelf_board :: "part \<Rightarrow> bool" where
  "is_shelf_board p = (take 6 (part_label p) = ''shelf '')"

definition is_front_lip_board :: "part \<Rightarrow> bool" where
  "is_front_lip_board p = (take 10 (part_label p) = ''front lip '')"

definition is_back_wall :: "part \<Rightarrow> bool" where
  "is_back_wall p = (part_label p = ''back wall'')"

fun rectangle_of :: "part \<Rightarrow> (real \<times> real) option" where
  "rectangle_of (RectangularWall x y edges callback move label) = Some (x, y)"
| "rectangle_of (PolygonWall borders edge callback move label) = None"

text \<open>The example with a back wall.\<close>

definition example_with_back :: DisplayShelf where
  "example_with_back = example_shelf\<lparr>self_include_back := True\<rparr>"

text \<open>The example with sloped sides.\<close>

definition example_sloped :: DisplayShelf where
  "example_sloped = example_shelf\<lparr>self_slope_top := True\<rparr>"

text \<open>The example with floors that slant backwards.\<close>

definition example_backward :: DisplayShelf where
  "example_backward = example_shelf\<lparr>self_angle := - 30\<rparr>"

text \<open>The \<open>pos_y\<close> of the shelf seat of index \<open>i\<close> on the first side panel of a run.\<close>

definition seat_pos_y :: "(real \<Rightarrow> real) \<Rightarrow> DisplayShelf \<Rightarrow> nat \<Rightarrow> real" where
  "seat_pos_y adjustSize self i =
     hole_y (part_callback (hd (self_parts (snd (render adjustSize self)))) ! (2 * i))"

section \<open>Properties\<close>

subsection \<open>Auxiliary facts\<close>

lemma length_finger_holes_at_index: "length (finger_holes_at_index self hs i) = 2"
  by (simp add: finger_holes_at_index_def Let_def)


lemma finger_holes_loop_nth:
  "i < length ixs \<Longrightarrow>
     finger_holes_loop self hs ixs ! (2 * i) = finger_holes_at_index self hs (ixs ! i) ! 0 \<and>
     finger_holes_loop self hs ixs ! (2 * i + 1) = finger_holes_at_index self hs (ixs ! i) ! 1"
proof (induction ixs arbitrary: i)
  case Nil
  then show ?case by simp
next
  case (Cons j rest)
  show ?case
  proof (cases i)
    case 0
    then show ?thesis
      by (simp add: nth_append length_finger_holes_at_index)
  next
    case (Suc k)
    with Cons.prems have k: "k < length rest" by simp
    from Cons.IH [OF k] Suc show ?thesis
      by (simp add: nth_append length_finger_holes_at_index)
  qed
qed

lemma py_range_nth: "i < nat n \<Longrightarrow> py_range n ! i = i"
  by (simp add: py_range_def)

lemma length_py_range: "length (py_range n) = nat n"
  by (simp add: py_range_def)


lemma generate_finger_holes_parts [simp]:
  "generate_finger_holes (self\<lparr>self_parts := ps\<rparr>) = generate_finger_holes self"
proof -
  have a: "\<And>hs i. finger_holes_at_index (self\<lparr>self_parts := ps\<rparr>) hs i = finger_holes_at_index self hs i"
    by (simp add: finger_holes_at_index_def Let_def)
  have b: "\<And>hs ixs. finger_holes_loop (self\<lparr>self_parts := ps\<rparr>) hs ixs = finger_holes_loop self hs ixs"
    subgoal for hs ixs by (induction ixs) (simp_all add: a)
    done
  show ?thesis by (simp add: generate_finger_holes_def b)
qed

lemma shelf_board_parts [simp]:
  "shelf_board (self\<lparr>self_parts := ps\<rparr>) e i = shelf_board self e i"
  by (simp add: shelf_board_def)

lemma front_lip_board_parts [simp]:
  "front_lip_board (self\<lparr>self_parts := ps\<rparr>) i = front_lip_board self i"
  by (simp add: front_lip_board_def)

lemma shelves_with_lips_eq:
  "shelves_with_lips self ixs =
     self\<lparr>self_parts := self_parts self @
       concat (map (\<lambda>i. [shelf_board self ''ffef'' i, front_lip_board self i]) ixs)\<rparr>"
proof (induction ixs arbitrary: self)
  case Nil
  show ?case by simp
next
  case (Cons i rest)
  show ?case
    by (simp add: Cons.IH rectangularWall_def Let_def shelf_board_def front_lip_board_def)
qed

lemma shelves_without_lips_eq:
  "shelves_without_lips self ixs =
     self\<lparr>self_parts := self_parts self @ map (shelf_board self ''Efef'') ixs\<rparr>"
proof (induction ixs arbitrary: self)
  case Nil
  show ?case by simp
next
  case (Cons i rest)
  show ?case
    by (simp add: Cons.IH rectangularWall_def Let_def shelf_board_def)
qed

lemma generate_shelves_eq:
  "generate_shelves self = self\<lparr>self_parts := self_parts self @ shelf_parts self\<rparr>"
  by (simp add: generate_shelves_def shelf_parts_def shelves_with_lips_eq shelves_without_lips_eq)

lemma shelf_parts_parts [simp]:
  "shelf_parts (self\<lparr>self_parts := ps\<rparr>) = shelf_parts self"
  by (simp add: shelf_parts_def)

lemma render_cos_zero:
  "cos (math_radians (self_angle self)) = 0 \<Longrightarrow>
     render adjustSize self =
       (Some ZeroDivisionError, self\<lparr>self_radians := math_radians (self_angle self)\<rparr>)"
  by (simp add: render_def Let_def)

lemma render_rectangular:
  assumes "cos (math_radians (self_angle self)) \<noteq> 0" and "\<not> self_slope_top self"
  shows "render adjustSize self =
     (None, (resolved adjustSize self)\<lparr>self_parts :=
        self_parts self @ rectangular_sides adjustSize self
          @ shelf_parts (resolved adjustSize self) @ back_parts adjustSize self\<rparr>)"
  using assms
  by (simp add: render_def Let_def resolved_def used_depth_def used_width_def
      generate_rectangular_sides_def rectangularWall_def generate_shelves_eq
      back_parts_def rectangular_sides_def)

lemma sqrt_argument_nonneg:
  fixes v s :: real
  assumes "s \<noteq> 0" and "\<bar>s\<bar> \<le> 1"
  shows "0 \<le> (v / s) ^ 2 - v ^ 2"
proof -
  have s2: "0 < s ^ 2" using assms(1) by simp
  have "s ^ 2 \<le> 1" using assms(2) by (simp add: abs_square_le_1)
  then have "v ^ 2 * s ^ 2 \<le> v ^ 2 * 1"
    by (intro mult_left_mono) simp_all
  then have "v ^ 2 \<le> v ^ 2 / s ^ 2"
    using s2 by (simp add: pos_le_divide_eq)
  then show ?thesis by (simp add: power_divide)
qed

lemma generate_sloped_sides_raises:
  "self_num self = 0 \<or> sin (self_radians self) = 0 \<Longrightarrow>
     generate_sloped_sides self width height = (Some ZeroDivisionError, self)"
  by (auto simp add: generate_sloped_sides_def Let_def)

lemma generate_sloped_sides_returns:
  assumes "self_num self \<noteq> 0" and "sin (self_radians self) \<noteq> 0"
  shows "generate_sloped_sides self width height =
     (None, self\<lparr>self_parts := self_parts self @ sloped_sides self width height\<rparr>)"
proof -
  have "0 \<le> (nominal_vertical_cut self height / sin (self_radians self)) ^ 2
            - (nominal_vertical_cut self height) ^ 2"
    using assms(2) by (intro sqrt_argument_nonneg) simp_all
  then have nn: "\<not> (height / real_of_int (self_num self) - self_front_wall_height self)\<^sup>2
         / (sin (self_radians self))\<^sup>2
      < (height / real_of_int (self_num self) - self_front_wall_height self)\<^sup>2"
    by (simp add: nominal_vertical_cut_def power_divide)
  show ?thesis
    using assms nn
    by (simp add: generate_sloped_sides_def Let_def polygonWall_def sloped_sides_def
        sloped_borders_def final_horizontal_cut_def final_vertical_cut_def
        final_hypotenuse_def nominal_horizontal_cut_def nominal_hypotenuse_def
        nominal_vertical_cut_def power_divide)
qed

lemma resolved_fields [simp]:
  "self_x (resolved adjustSize self) = self_x self"
  "self_y (resolved adjustSize self) = self_y self"
  "self_h (resolved adjustSize self) = self_h self"
  "self_outside (resolved adjustSize self) = self_outside self"
  "self_thickness (resolved adjustSize self) = self_thickness self"
  "self_num (resolved adjustSize self) = self_num self"
  "self_front_wall_height (resolved adjustSize self) = self_front_wall_height self"
  "self_angle (resolved adjustSize self) = self_angle self"
  "self_include_back (resolved adjustSize self) = self_include_back self"
  "self_slope_top (resolved adjustSize self) = self_slope_top self"
  "self_radians (resolved adjustSize self) = math_radians (self_angle self)"
  "self_parts (resolved adjustSize self) = self_parts self"
  by (simp_all add: resolved_def Let_def)

lemma render_sloped_raises:
  assumes "cos (math_radians (self_angle self)) \<noteq> 0" and "self_slope_top self"
    and "self_num self = 0 \<or> sin (math_radians (self_angle self)) = 0"
  shows "render adjustSize self = (Some ZeroDivisionError, resolved adjustSize self)"
proof -
  have "generate_sloped_sides (resolved adjustSize self) (used_depth adjustSize self)
          (self_h self) = (Some ZeroDivisionError, resolved adjustSize self)"
    using assms(3) by (intro generate_sloped_sides_raises) simp
  then show ?thesis
    using assms(1,2)
    by (simp add: render_def Let_def resolved_def used_depth_def)
qed

lemma render_sloped:
  assumes "cos (math_radians (self_angle self)) \<noteq> 0" and "self_slope_top self"
    and "self_num self \<noteq> 0" and "sin (math_radians (self_angle self)) \<noteq> 0"
  shows "render adjustSize self =
     (None, (resolved adjustSize self)\<lparr>self_parts :=
        self_parts self
          @ sloped_sides (resolved adjustSize self) (used_depth adjustSize self) (self_h self)
          @ shelf_parts (resolved adjustSize self) @ back_parts adjustSize self\<rparr>)"
proof -
  have "generate_sloped_sides (resolved adjustSize self) (used_depth adjustSize self)
          (self_h self) =
        (None, (resolved adjustSize self)\<lparr>self_parts := self_parts self
           @ sloped_sides (resolved adjustSize self) (used_depth adjustSize self)
               (self_h self)\<rparr>)"
    using assms(3,4) by (simp add: generate_sloped_sides_returns)
  then show ?thesis
    using assms(1,2)
    by (simp add: render_def Let_def resolved_def used_depth_def used_width_def
        generate_shelves_eq rectangularWall_def back_parts_def)
qed

lemma render_returns_iff:
  "fst (render adjustSize self) = None \<longleftrightarrow>
     cos (math_radians (self_angle self)) \<noteq> 0 \<and>
     (self_slope_top self \<longrightarrow>
        self_num self \<noteq> 0 \<and> sin (math_radians (self_angle self)) \<noteq> 0)"
proof (cases "cos (math_radians (self_angle self)) = 0")
  case True
  then show ?thesis by (simp add: render_cos_zero)
next
  case c: False
  show ?thesis
  proof (cases "self_slope_top self")
    case False
    with c show ?thesis by (simp add: render_rectangular)
  next
    case st: True
    show ?thesis
    proof (cases "self_num self = 0 \<or> sin (math_radians (self_angle self)) = 0")
      case True
      with c st show ?thesis by (auto simp add: render_sloped_raises)
    next
      case False
      with c st show ?thesis by (simp add: render_sloped)
    qed
  qed
qed

lemma render_returns:
  assumes "fst (render adjustSize self) = None"
  shows "snd (render adjustSize self) =
     (resolved adjustSize self)\<lparr>self_parts :=
        self_parts self @ side_parts adjustSize self
          @ shelf_parts (resolved adjustSize self) @ back_parts adjustSize self\<rparr>"
proof -
  from assms have c: "cos (math_radians (self_angle self)) \<noteq> 0"
    and s: "self_slope_top self \<Longrightarrow>
              self_num self \<noteq> 0 \<and> sin (math_radians (self_angle self)) \<noteq> 0"
    by (simp_all add: render_returns_iff)
  show ?thesis
  proof (cases "self_slope_top self")
    case False
    with c show ?thesis by (simp add: render_rectangular side_parts_def)
  next
    case True
    with c s show ?thesis by (simp add: render_sloped side_parts_def)
  qed
qed

lemma render_raises:
  assumes "fst (render adjustSize self) \<noteq> None"
  shows "fst (render adjustSize self) = Some ZeroDivisionError \<and>
         self_parts (snd (render adjustSize self)) = self_parts self"
proof (cases "cos (math_radians (self_angle self)) = 0")
  case True
  then show ?thesis by (simp add: render_cos_zero)
next
  case c: False
  with assms have st: "self_slope_top self"
    and z: "self_num self = 0 \<or> sin (math_radians (self_angle self)) = 0"
    by (auto simp add: render_returns_iff)
  from c st z show ?thesis by (simp add: render_sloped_raises)
qed

lemma render_sl:
  assumes "cos (math_radians (self_angle self)) \<noteq> 0"
  shows "self_sl (snd (render adjustSize self)) = self_sl (resolved adjustSize self)"
    and "self_radians (snd (render adjustSize self)) = math_radians (self_angle self)"
proof -
  have "self_sl (snd (render adjustSize self)) = self_sl (resolved adjustSize self) \<and>
        self_radians (snd (render adjustSize self)) = math_radians (self_angle self)"
  proof (cases "fst (render adjustSize self) = None")
    case True
    then show ?thesis by (simp add: render_returns)
  next
    case False
    with assms have "self_slope_top self"
      and "self_num self = 0 \<or> sin (math_radians (self_angle self)) = 0"
      by (auto simp add: render_returns_iff)
    with assms show ?thesis by (simp add: render_sloped_raises)
  qed
  then show "self_sl (snd (render adjustSize self)) = self_sl (resolved adjustSize self)"
    and "self_radians (snd (render adjustSize self)) = math_radians (self_angle self)"
    by simp_all
qed

text \<open>Labels tell the kinds of parts apart.\<close>

lemma side_parts_labels:
  "p \<in> set (side_parts adjustSize self) \<Longrightarrow>
     (part_label p = ''left side'' \<or> part_label p = ''right side'') \<and>
     part_callback p = generate_finger_holes (resolved adjustSize self)"
  by (cases "self_slope_top self")
    (auto simp add: side_parts_def sloped_sides_def rectangular_sides_def Let_def)

lemma shelf_parts_labels:
  "p \<in> set (shelf_parts self) \<Longrightarrow>
     part_label p \<noteq> ''left side'' \<and> part_label p \<noteq> ''right side''"
  by (auto simp add: shelf_parts_def shelf_board_def front_lip_board_def split: if_splits)

lemma back_parts_labels:
  "p \<in> set (back_parts adjustSize self) \<Longrightarrow>
     part_label p \<noteq> ''left side'' \<and> part_label p \<noteq> ''right side''"
  by (auto simp add: back_parts_def split: if_splits)

lemma side_panel_callback:
  assumes ok: "fst (render adjustSize self) = None"
    and fresh: "self_parts self = []"
    and p: "p \<in> set (self_parts (snd (render adjustSize self)))"
    and side: "part_label p = ''left side'' \<or> part_label p = ''right side''"
  shows "part_callback p = generate_finger_holes (resolved adjustSize self)"
    and "p \<in> set (side_parts adjustSize self)"
proof -
  from p fresh have "p \<in> set (side_parts adjustSize self)
      \<or> p \<in> set (shelf_parts (resolved adjustSize self))
      \<or> p \<in> set (back_parts adjustSize self)"
    by (auto simp add: render_returns [OF ok])
  with side show "p \<in> set (side_parts adjustSize self)"
    using shelf_parts_labels back_parts_labels by blast
  then show "part_callback p = generate_finger_holes (resolved adjustSize self)"
    by (simp add: side_parts_labels)
qed

lemma math_radians_30: "math_radians 30 = pi / 6"
  by (simp add: math_radians_def)

lemma math_radians_neg: "math_radians (- d) = - math_radians d"
  by (simp add: math_radians_def)

lemma math_radians_neg_iff: "math_radians d < 0 \<longleftrightarrow> d < 0"
  by (simp add: math_radians_def zero_less_mult_iff mult_less_0_iff)

lemma math_radians_0: "math_radians 0 = 0"
  by (simp add: math_radians_def)

lemma example_shelf_fields [simp]:
  "self_x example_shelf = 400" "self_y example_shelf = 100" "self_h example_shelf = 300"
  "self_outside example_shelf" "self_thickness example_shelf = 3" "self_num example_shelf = 3"
  "self_front_wall_height example_shelf = 20" "self_angle example_shelf = 30"
  "\<not> self_include_back example_shelf" "\<not> self_slope_top example_shelf"
  "self_parts example_shelf = []"
  by (simp_all add: example_shelf_def)

lemma example_shelf_returns: "fst (render adjustSize example_shelf) = None"
  by (simp add: render_returns_iff math_radians_30 cos_30)

subsection \<open>Where the shelf seats are\<close>

text \<open>
  C1. On each side panel of a completed run, the request of even position \<open>2 * i\<close>, for
  every shelf index \<open>i\<close> below \<open>num\<close>, is the shelf seat: it is placed at
  \<open>pos_x = \<bar>0.5 * thickness * sin radians\<bar>\<close> and
  \<open>pos_y = hs - cos radians * 0.5 * thickness + i * (h - \<bar>hs\<bar>) / (num - 0.5)\<close>, with
  \<open>- sin radians * slant_length\<close> added exactly when the angle is negative, where
  \<open>hs = (slant_length + thickness) * sin radians + cos radians * thickness\<close>; its length
  is the slant length and its orientation \<open>- angle\<close>.
\<close>

theorem shelf_seat_hole:
  assumes ok: "fst (render adjustSize self) = None"
    and fresh: "self_parts self = []"
    and p: "p \<in> set (self_parts (snd (render adjustSize self)))"
    and side: "part_label p = ''left side'' \<or> part_label p = ''right side''"
    and i: "i < nat (self_num self)"
  shows
    "(let t = self_thickness self;
          radians = self_angle self * pi / 180;
          slant_length = self_sl (snd (render adjustSize self));
          hs = (slant_length + t) * sin radians + cos radians * t
      in part_callback p ! (2 * i) =
           FingerHolesAt \<bar>0.5 * t * sin radians\<bar>
             (hs - cos radians * 0.5 * t
                + real i * (self_h self - \<bar>hs\<bar>) / (real_of_int (self_num self) - 0.5)
                + (if self_angle self < 0 then - sin radians * slant_length else 0))
             slant_length (- self_angle self))"
proof -
  let ?s1 = "resolved adjustSize self"
  have cb: "part_callback p = generate_finger_holes ?s1"
    using side_panel_callback(1) [OF ok fresh p side] .
  have sl: "self_sl (snd (render adjustSize self)) = self_sl ?s1"
    by (simp add: render_returns [OF ok])
  have i': "i < length (py_range (self_num ?s1))"
    using i by (simp add: length_py_range)
  have ix: "py_range (self_num ?s1) ! i = i"
    using i by (simp add: py_range_nth)
  have "generate_finger_holes ?s1 ! (2 * i) =
      finger_holes_at_index ?s1
        ((self_sl ?s1 + self_thickness self) * sin (math_radians (self_angle self))
           + cos (math_radians (self_angle self)) * self_thickness self) i ! 0"
    using finger_holes_loop_nth [OF i', THEN conjunct1] ix
    by (simp add: generate_finger_holes_def Let_def)
  then show ?thesis
    by (simp add: cb sl finger_holes_at_index_def Let_def math_radians_neg_iff)
      (simp add: math_radians_def)
qed

lemma example_shelf_parts:
  "self_parts (snd (render adjustSize example_shelf)) =
     rectangular_sides adjustSize example_shelf
       @ shelf_parts (resolved adjustSize example_shelf)"
  by (simp add: render_returns [OF example_shelf_returns] side_parts_def back_parts_def)

theorem shelf_seat_hole_witness:
  "fst (render example_adjustSize example_shelf) = None \<and>
   self_parts example_shelf = [] \<and>
   hd (self_parts (snd (render example_adjustSize example_shelf)))
     \<in> set (self_parts (snd (render example_adjustSize example_shelf))) \<and>
   (part_label (hd (self_parts (snd (render example_adjustSize example_shelf)))) = ''left side''
    \<or> part_label (hd (self_parts (snd (render example_adjustSize example_shelf))))
        = ''right side'') \<and>
   (1::nat) < nat (self_num example_shelf) \<and>
   (let t = self_thickness example_shelf;
        radians = self_angle example_shelf * pi / 180;
        slant_length = self_sl (snd (render example_adjustSize example_shelf));
        hs = (slant_length + t) * sin radians + cos radians * t
    in part_callback (hd (self_parts (snd (render example_adjustSize example_shelf)))) ! (2 * 1) =
         FingerHolesAt \<bar>0.5 * t * sin radians\<bar>
           (hs - cos radians * 0.5 * t
              + real 1 * (self_h example_shelf - \<bar>hs\<bar>)
                  / (real_of_int (self_num example_shelf) - 0.5)
              + (if self_angle example_shelf < 0 then - sin radians * slant_length else 0))
           slant_length (- self_angle example_shelf))"
proof -
  let ?p = "hd (self_parts (snd (render example_adjustSize example_shelf)))"
  have ok: "fst (render example_adjustSize example_shelf) = None"
    by (rule example_shelf_returns)
  have fresh: "self_parts example_shelf = []" by simp
  have pin: "?p \<in> set (self_parts (snd (render example_adjustSize example_shelf)))"
    by (simp add: example_shelf_parts rectangular_sides_def Let_def)
  have lab: "part_label ?p = ''left side'' \<or> part_label ?p = ''right side''"
    by (simp add: example_shelf_parts rectangular_sides_def Let_def)
  have i: "(1::nat) < nat (self_num example_shelf)" by simp
  note th = shelf_seat_hole [OF ok fresh pin lab i]
  show ?thesis by (intro conjI ok fresh pin lab i th)
qed

subsection \<open>The slant length\<close>

text \<open>
  C2. Whenever the division by \<open>cos radians\<close> is defined, the angle in radians that the run
  stores is \<open>angle * pi / 180\<close> and the slant length it stores is
  \<open>(depth - thickness * (cos radians + \<bar>sin radians\<bar>) - max 0 (sin radians *
  front_wall_height)) / cos radians\<close>, where \<open>depth\<close> is \<open>y\<close>, adjusted when the
  measures are outer ones and there is a back.
\<close>

theorem slant_length_formula:
  assumes "cos (self_angle self * pi / 180) \<noteq> 0"
  shows
    "(let radians = self_angle self * pi / 180;
          depth = (if self_outside self \<and> self_include_back self
                   then adjustSize (self_y self) else self_y self)
      in self_radians (snd (render adjustSize self)) = radians \<and>
         self_sl (snd (render adjustSize self)) =
           (depth - self_thickness self * (cos radians + \<bar>sin radians\<bar>)
              - max 0 (sin radians * self_front_wall_height self)) / cos radians)"
proof -
  from assms have c: "cos (math_radians (self_angle self)) \<noteq> 0"
    by (simp add: math_radians_def)
  show ?thesis
    by (simp add: render_sl [OF c] resolved_def used_depth_def Let_def)
      (simp add: math_radians_def)
qed

theorem slant_length_formula_witness:
  "cos (self_angle example_shelf * pi / 180) \<noteq> 0 \<and>
   self_radians (snd (render example_adjustSize example_shelf)) = pi / 6 \<and>
   self_sl (snd (render example_adjustSize example_shelf)) =
     (100 - 3 * (sqrt 3 / 2 + 1 / 2) - 10) / (sqrt 3 / 2)"
proof -
  have c: "cos (self_angle example_shelf * pi / 180) \<noteq> 0"
    by (simp add: cos_30)
  from slant_length_formula [OF c, of example_adjustSize] c show ?thesis
    by (simp add: Let_def cos_30 sin_30)
qed

subsection \<open>How many holes a side panel asks for\<close>


lemma example_without_lip_fields [simp]:
  "self_x example_without_lip = 400" "self_y example_without_lip = 100"
  "self_h example_without_lip = 300" "self_outside example_without_lip"
  "self_thickness example_without_lip = 3" "self_num example_without_lip = 3"
  "self_front_wall_height example_without_lip = 0" "self_angle example_without_lip = 30"
  "\<not> self_include_back example_without_lip" "\<not> self_slope_top example_without_lip"
  "self_parts example_without_lip = []"
  by (simp_all add: example_without_lip_def)





subsection \<open>Sloped sides with level floors\<close>

text \<open>
  C10. With \<open>slope_top\<close> set and \<open>angle = 0\<close> the run reaches generate_sloped_sides, since
  \<open>cos radians = 1\<close>, and fails there with ZeroDivisionError, as \<open>sin radians = 0\<close>;
  no part has been emitted by then.
\<close>

theorem sloped_sides_at_angle_zero:
  assumes "self_slope_top self" and "self_angle self = 0"
  shows "fst (render adjustSize self) = Some ZeroDivisionError \<and>
         self_parts (snd (render adjustSize self)) = self_parts self \<and>
         cos (self_radians (snd (render adjustSize self))) \<noteq> 0 \<and>
         sin (self_radians (snd (render adjustSize self))) = 0 \<and>
         generate_sloped_sides (snd (render adjustSize self)) width height =
           (Some ZeroDivisionError, snd (render adjustSize self))"
proof -
  from assms(2) have r: "math_radians (self_angle self) = 0"
    by (simp add: math_radians_def)
  then have c: "cos (math_radians (self_angle self)) \<noteq> 0" by simp
  have z: "self_num self = 0 \<or> sin (math_radians (self_angle self)) = 0"
    using r by simp
  have eq: "render adjustSize self = (Some ZeroDivisionError, resolved adjustSize self)"
    using c assms(1) z by (rule render_sloped_raises)
  have "generate_sloped_sides (resolved adjustSize self) width height =
      (Some ZeroDivisionError, resolved adjustSize self)"
    by (rule generate_sloped_sides_raises) (simp add: r)
  then show ?thesis
    by (simp add: eq r)
qed

theorem sloped_sides_at_angle_zero_witness:
  "self_slope_top example_level_sloped \<and> self_angle example_level_sloped = 0 \<and>
   fst (render example_adjustSize example_level_sloped) = Some ZeroDivisionError \<and>
   self_parts (snd (render example_adjustSize example_level_sloped)) = []"
proof -
  have a: "self_slope_top example_level_sloped"
    by (simp add: example_level_sloped_def)
  have b: "self_angle example_level_sloped = 0"
    by (simp add: example_level_sloped_def)
  have c: "self_parts example_level_sloped = []"
    by (simp add: example_level_sloped_def)
  from sloped_sides_at_angle_zero [OF a b, of example_adjustSize] a b c
  show ?thesis by simp
qed

subsection \<open>What a run can raise\<close>

lemma cos_math_radians_pos:
  assumes "- 90 < d" and "d < 90"
  shows "0 < cos (math_radians d)"
proof -
  have "(- 90) * pi < d * pi"
    using assms(1) by (intro mult_strict_right_mono) simp_all
  then have lo: "- (pi / 2) < math_radians d"
    by (simp add: math_radians_def)
  have "d * pi < 90 * pi"
    using assms(2) by (intro mult_strict_right_mono) simp_all
  then have hi: "math_radians d < pi / 2"
    by (simp add: math_radians_def)
  from lo hi show ?thesis by (rule cos_gt_zero_pi)
qed

text \<open>
  C5, as the code has it. The generator validates nothing and has no error of its own. For
  an angle strictly between -90 and 90 and rectangular sides the run completes and draws the
  two side panels, whatever \<open>num\<close> and the slant length are. With sloped sides and such an
  angle, \<open>num = 0\<close> or \<open>angle = 0\<close> makes the run raise ZeroDivisionError. Whenever a
  run raises, no part has been emitted.
\<close>

theorem render_without_validation:
  "(- 90 < self_angle self \<and> self_angle self < 90 \<and> \<not> self_slope_top self \<longrightarrow>
      fst (render adjustSize self) = None \<and>
      map part_label
        (take 2 (drop (length (self_parts self)) (self_parts (snd (render adjustSize self)))))
        = [''left side'', ''right side'']) \<and>
   (- 90 < self_angle self \<and> self_angle self < 90 \<and> self_slope_top self \<and>
    (self_num self = 0 \<or> self_angle self = 0) \<longrightarrow>
      fst (render adjustSize self) = Some ZeroDivisionError) \<and>
   (fst (render adjustSize self) \<noteq> None \<longrightarrow>
      self_parts (snd (render adjustSize self)) = self_parts self)"
proof (intro conjI impI)
  assume a: "- 90 < self_angle self \<and> self_angle self < 90 \<and> \<not> self_slope_top self"
  then have c: "cos (math_radians (self_angle self)) \<noteq> 0"
    using cos_math_radians_pos [of "self_angle self"] by simp
  from a c show "fst (render adjustSize self) = None"
    by (simp add: render_returns_iff)
  then show "map part_label
        (take 2 (drop (length (self_parts self)) (self_parts (snd (render adjustSize self)))))
        = [''left side'', ''right side'']"
    using a by (simp add: render_returns side_parts_def rectangular_sides_def Let_def)
next
  assume a: "- 90 < self_angle self \<and> self_angle self < 90 \<and> self_slope_top self \<and>
    (self_num self = 0 \<or> self_angle self = 0)"
  then have c: "cos (math_radians (self_angle self)) \<noteq> 0"
    using cos_math_radians_pos [of "self_angle self"] by simp
  from a have z: "self_num self = 0 \<or> sin (math_radians (self_angle self)) = 0"
    by (auto simp add: math_radians_def)
  from a have st: "self_slope_top self" by simp
  show "fst (render adjustSize self) = Some ZeroDivisionError"
    by (simp add: render_sloped_raises [OF c st z])
next
  assume "fst (render adjustSize self) \<noteq> None"
  then show "self_parts (snd (render adjustSize self)) = self_parts self"
    by (simp add: render_raises)
qed

theorem render_without_validation_witness:
  "- 90 < self_angle example_no_shelves \<and> self_angle example_no_shelves < 90 \<and>
   \<not> self_slope_top example_no_shelves \<and> self_num example_no_shelves = 0 \<and>
   fst (render example_adjustSize example_no_shelves) = None \<and>
   map part_label
     (take 2 (drop (length (self_parts example_no_shelves))
        (self_parts (snd (render example_adjustSize example_no_shelves)))))
     = [''left side'', ''right side''] \<and>
   self_slope_top (example_no_shelves\<lparr>self_slope_top := True\<rparr>) \<and>
   fst (render example_adjustSize (example_no_shelves\<lparr>self_slope_top := True\<rparr>))
     = Some ZeroDivisionError \<and>
   self_parts (snd (render example_adjustSize (example_no_shelves\<lparr>self_slope_top := True\<rparr>)))
     = self_parts (example_no_shelves\<lparr>self_slope_top := True\<rparr>)"
proof -
  let ?c = "example_no_shelves\<lparr>self_slope_top := True\<rparr>"
  have f: "- 90 < self_angle example_no_shelves" "self_angle example_no_shelves < 90"
    "\<not> self_slope_top example_no_shelves" "self_num example_no_shelves = 0"
    by (simp_all add: example_no_shelves_def)
  have g: "- 90 < self_angle ?c" "self_angle ?c < 90" "self_slope_top ?c" "self_num ?c = 0"
    by (simp_all add: example_no_shelves_def)
  note th1 = render_without_validation [of example_no_shelves example_adjustSize]
  note th2 = render_without_validation [of ?c example_adjustSize]
  from th1 f have r1: "fst (render example_adjustSize example_no_shelves) = None"
    and r2: "map part_label
     (take 2 (drop (length (self_parts example_no_shelves))
        (self_parts (snd (render example_adjustSize example_no_shelves)))))
     = [''left side'', ''right side'']"
    by blast+
  from th2 g have r3: "fst (render example_adjustSize ?c) = Some ZeroDivisionError"
    by blast
  with th2 have r4: "self_parts (snd (render example_adjustSize ?c)) = self_parts ?c"
    by simp
  show ?thesis
    by (intro conjI f g(3) r1 r2 r3 r4)
qed

text \<open>
  C5 as stated fails at the example with \<open>num = 0\<close> and rectangular sides: nothing is
  signalled, and the two side panels are emitted.
\<close>

theorem no_shelves_counterexample:
  "self_num example_no_shelves < 1 \<and>
   fst (render example_adjustSize example_no_shelves) = None \<and>
   self_parts (snd (render example_adjustSize example_no_shelves)) =
     [RectangularWall 100 300 ''eeee'' [] ''up'' ''left side'',
      RectangularWall 100 300 ''eeee'' [] ''up'' ''right side'']"
proof -
  have c: "cos (math_radians (self_angle example_no_shelves)) \<noteq> 0"
    by (simp add: example_no_shelves_def math_radians_30 cos_30)
  have ok: "fst (render example_adjustSize example_no_shelves) = None"
    using c by (simp add: render_returns_iff example_no_shelves_def)
  have r: "py_range 0 = []" by (simp add: py_range_def)
  have f: "self_parts example_no_shelves = []" "self_num example_no_shelves = 0"
    "\<not> self_slope_top example_no_shelves" "\<not> self_include_back example_no_shelves"
    "self_front_wall_height example_no_shelves = 20" "self_y example_no_shelves = 100"
    "self_h example_no_shelves = 300"
    by (simp_all add: example_no_shelves_def)
  have "self_parts (snd (render example_adjustSize example_no_shelves)) =
     rectangular_sides example_adjustSize example_no_shelves
       @ shelf_parts (resolved example_adjustSize example_no_shelves)"
    by (simp add: render_returns [OF ok] side_parts_def back_parts_def f)
  then have "self_parts (snd (render example_adjustSize example_no_shelves)) =
     [RectangularWall 100 300 ''eeee'' [] ''up'' ''left side'',
      RectangularWall 100 300 ''eeee'' [] ''up'' ''right side'']"
    by (simp add: rectangular_sides_def Let_def shelf_parts_def generate_finger_holes_def
        used_depth_def r f)
  with ok show ?thesis by (simp add: example_no_shelves_def)
qed

lemma filter_shelf_boards_with_lips:
  "filter is_shelf_board
     (concat (map (\<lambda>i. [shelf_board self e i, front_lip_board self i]) ixs))
   = map (shelf_board self e) ixs"
  by (induction ixs) (simp_all add: is_shelf_board_def shelf_board_def front_lip_board_def)

lemma filter_lips_with_lips:
  "filter is_front_lip_board
     (concat (map (\<lambda>i. [shelf_board self e i, front_lip_board self i]) ixs))
   = map (front_lip_board self) ixs"
  by (induction ixs) (simp_all add: is_front_lip_board_def shelf_board_def front_lip_board_def)

lemma filter_shelf_boards_without_lips:
  "filter is_shelf_board (map (shelf_board self e) ixs) = map (shelf_board self e) ixs"
  by (induction ixs) (simp_all add: is_shelf_board_def shelf_board_def)

lemma filter_lips_without_lips:
  "filter is_front_lip_board (map (shelf_board self e) ixs) = []"
  by (induction ixs) (simp_all add: is_front_lip_board_def shelf_board_def)

lemma filter_shelf_parts:
  "filter is_shelf_board (shelf_parts self) =
     map (shelf_board self (if self_front_wall_height self \<noteq> 0 then ''ffef'' else ''Efef''))
       (py_range (self_num self))"
  "filter is_front_lip_board (shelf_parts self) =
     (if self_front_wall_height self \<noteq> 0
      then map (front_lip_board self) (py_range (self_num self)) else [])"
  "filter is_back_wall (shelf_parts self) = []"
proof -
  have b: "\<And>ps. (\<And>p. p \<in> set ps \<Longrightarrow> \<not> is_back_wall p) \<Longrightarrow> filter is_back_wall ps = []"
    by (simp add: filter_empty_conv)
  show "filter is_back_wall (shelf_parts self) = []"
    by (rule b)
      (auto simp add: shelf_parts_def is_back_wall_def shelf_board_def front_lip_board_def
        split: if_splits)
qed (simp_all add: shelf_parts_def filter_shelf_boards_with_lips filter_lips_with_lips
    filter_shelf_boards_without_lips filter_lips_without_lips)

lemma filter_side_parts:
  "filter is_shelf_board (side_parts adjustSize self) = []"
  "filter is_front_lip_board (side_parts adjustSize self) = []"
  "filter is_back_wall (side_parts adjustSize self) = []"
  by (simp_all add: side_parts_def sloped_sides_def rectangular_sides_def Let_def
      is_shelf_board_def is_front_lip_board_def is_back_wall_def)

lemma filter_back_parts:
  "filter is_shelf_board (back_parts adjustSize self) = []"
  "filter is_front_lip_board (back_parts adjustSize self) = []"
  "filter is_back_wall (back_parts adjustSize self) = back_parts adjustSize self"
  by (simp_all add: back_parts_def is_shelf_board_def is_front_lip_board_def is_back_wall_def)

lemma map_rectangle_of_shelf_boards:
  "map (rectangle_of \<circ> shelf_board self e) ixs =
     replicate (length ixs) (Some (self_x self, self_sl self))"
  by (induction ixs) (simp_all add: shelf_board_def)

lemma map_rectangle_of_lips:
  "map (rectangle_of \<circ> front_lip_board self) ixs =
     replicate (length ixs) (Some (self_x self, self_front_wall_height self))"
  by (induction ixs) (simp_all add: front_lip_board_def)

lemma emitted_boards:
  assumes ok: "fst (render adjustSize self) = None" and fresh: "self_parts self = []"
  shows "map rectangle_of (filter is_shelf_board (self_parts (snd (render adjustSize self))))
       = replicate (nat (self_num self))
           (Some (self_x self, self_sl (snd (render adjustSize self))))"
    and "map rectangle_of (filter is_front_lip_board (self_parts (snd (render adjustSize self))))
       = (if self_front_wall_height self \<noteq> 0
          then replicate (nat (self_num self))
                 (Some (self_x self, self_front_wall_height self))
          else [])"
    and "filter is_back_wall (self_parts (snd (render adjustSize self)))
       = back_parts adjustSize self"
  by (simp_all add: render_returns [OF ok] fresh filter_shelf_parts filter_side_parts
      filter_back_parts map_rectangle_of_shelf_boards map_rectangle_of_lips length_py_range)

subsection \<open>Shelves and front lips\<close>

text \<open>
  C8 at the example, where the measures are outer ones and the interior width is 394. The
  run emits three shelves and three front lips, as many as \<open>num\<close>, the shelves as deep as
  the slant length and the lips as high as the front wall; but all six are 400 wide, the value
  of the attribute \<^verbatim>\<open>self.x\<close>, which render does not assign when it adjusts its local
  \<^verbatim>\<open>x\<close>.
\<close>

theorem shelf_boards_keep_outer_width:
  "self_outside example_shelf \<and>
   fst (render example_adjustSize example_shelf) = None \<and>
   self_x example_shelf = 400 \<and>
   example_adjustSize (self_x example_shelf) = 394 \<and>
   map rectangle_of
     (filter is_shelf_board (self_parts (snd (render example_adjustSize example_shelf))))
     = replicate 3 (Some (400, self_sl (snd (render example_adjustSize example_shelf)))) \<and>
   map rectangle_of
     (filter is_front_lip_board (self_parts (snd (render example_adjustSize example_shelf))))
     = replicate 3 (Some (400, 20))"
proof -
  have ok: "fst (render example_adjustSize example_shelf) = None"
    by (rule example_shelf_returns)
  have fresh: "self_parts example_shelf = []" by simp
  note boards = emitted_boards(1,2) [OF ok fresh]
  show ?thesis
    using ok boards by (simp add: example_adjustSize_def)
qed

subsection \<open>Outer measures\<close>

text \<open>
  C9 at the example with a back wall, where the measures are outer ones. The adjusted width
  is 394 and the adjusted depth is 94. The run gives the side panels the adjusted depth and
  the back wall the adjusted width, but the shelves and the front lips keep the width 400
  of the attribute \<^verbatim>\<open>self.x\<close>, which render does not assign.
\<close>

theorem shelf_width_with_outer_measures:
  "self_outside example_with_back \<and>
   self_include_back example_with_back \<and>
   fst (render example_adjustSize example_with_back) = None \<and>
   example_adjustSize (self_x example_with_back) = 394 \<and>
   example_adjustSize (self_y example_with_back) = 94 \<and>
   map rectangle_of (take 2 (self_parts (snd (render example_adjustSize example_with_back))))
     = [Some (94, 300), Some (94, 300)] \<and>
   map rectangle_of
     (filter is_back_wall (self_parts (snd (render example_adjustSize example_with_back))))
     = [Some (394, 300)] \<and>
   map rectangle_of
     (filter is_shelf_board (self_parts (snd (render example_adjustSize example_with_back))))
     = replicate 3 (Some (400, self_sl (snd (render example_adjustSize example_with_back)))) \<and>
   map rectangle_of
     (filter is_front_lip_board (self_parts (snd (render example_adjustSize example_with_back))))
     = replicate 3 (Some (400, 20))"
proof -
  have f: "self_x example_with_back = 400" "self_y example_with_back = 100"
    "self_h example_with_back = 300" "self_outside example_with_back"
    "self_num example_with_back = 3" "self_front_wall_height example_with_back = 20"
    "self_angle example_with_back = 30" "self_include_back example_with_back"
    "\<not> self_slope_top example_with_back" "self_parts example_with_back = []"
    by (simp_all add: example_with_back_def)
  have ok: "fst (render example_adjustSize example_with_back) = None"
    by (simp add: render_returns_iff f math_radians_30 cos_30)
  have sides: "map rectangle_of
      (take 2 (self_parts (snd (render example_adjustSize example_with_back))))
      = [Some (94, 300), Some (94, 300)]"
    by (simp add: render_returns [OF ok] f side_parts_def rectangular_sides_def Let_def
        used_depth_def example_adjustSize_def)
  have bw: "map rectangle_of
      (filter is_back_wall (self_parts (snd (render example_adjustSize example_with_back))))
      = [Some (394, 300)]"
    by (simp add: emitted_boards(3) [OF ok f(10)] back_parts_def used_width_def f
        example_adjustSize_def)
  note boards = emitted_boards(1,2) [OF ok f(10)]
  show ?thesis
    using ok sides bw boards
    by (simp add: f example_adjustSize_def)
qed

lemma nominal_cut_parts [simp]:
  "nominal_vertical_cut (self\<lparr>self_parts := ps\<rparr>) height = nominal_vertical_cut self height"
  "nominal_hypotenuse (self\<lparr>self_parts := ps\<rparr>) height = nominal_hypotenuse self height"
  "nominal_horizontal_cut (self\<lparr>self_parts := ps\<rparr>) height
     = nominal_horizontal_cut self height"
  by (simp_all add: nominal_vertical_cut_def nominal_hypotenuse_def nominal_horizontal_cut_def)

lemma final_cut_parts [simp]:
  "final_horizontal_cut (self\<lparr>self_parts := ps\<rparr>) width height
     = final_horizontal_cut self width height"
  "final_vertical_cut (self\<lparr>self_parts := ps\<rparr>) width height
     = final_vertical_cut self width height"
  "final_hypotenuse (self\<lparr>self_parts := ps\<rparr>) width height
     = final_hypotenuse self width height"
  by (simp_all add: final_horizontal_cut_def final_vertical_cut_def final_hypotenuse_def)

lemma nominal_horizontal_cut_nonneg:
  assumes "sin (self_radians self) \<noteq> 0"
  shows "0 \<le> nominal_horizontal_cut self height"
proof -
  have "0 \<le> (nominal_vertical_cut self height / sin (self_radians self)) ^ 2
            - (nominal_vertical_cut self height) ^ 2"
    using assms by (intro sqrt_argument_nonneg) simp_all
  then show ?thesis
    by (simp add: nominal_horizontal_cut_def nominal_hypotenuse_def)
qed

lemma sloped_side_panel_borders:
  assumes ok: "fst (render adjustSize self) = None"
    and fresh: "self_parts self = []"
    and sloped: "self_slope_top self"
    and p: "p \<in> set (self_parts (snd (render adjustSize self)))"
    and side: "part_label p = ''left side'' \<or> part_label p = ''right side''"
  shows "wall_borders p =
     sloped_borders (snd (render adjustSize self)) (used_depth adjustSize self) (self_h self)"
proof -
  from side_panel_callback(2) [OF ok fresh p side] sloped
  have "p \<in> set (sloped_sides (resolved adjustSize self) (used_depth adjustSize self)
                    (self_h self))"
    by (simp add: side_parts_def)
  then have "wall_borders p =
     sloped_borders (resolved adjustSize self) (used_depth adjustSize self) (self_h self)"
    by (auto simp add: sloped_sides_def Let_def)
  then show ?thesis
    by (simp add: render_returns [OF ok] sloped_borders_def)
qed

subsection \<open>The top edge of a sloped side\<close>

text \<open>
  C4, as the code has it. On each side panel of a completed run with sloped sides the top
  edge is the fourth edge of the polygon. When the nominal horizontal cut exceeds the width,
  the cut is set to \<open>width - 1\<close> and the top edge is exactly 1; otherwise the top edge is
  the width less the nominal cut. The top edge is never negative, and it does not exceed the
  width whenever the width is at least 1.
\<close>

theorem sloped_top_edge:
  assumes ok: "fst (render adjustSize self) = None"
    and fresh: "self_parts self = []"
    and sloped: "self_slope_top self"
    and p: "p \<in> set (self_parts (snd (render adjustSize self)))"
    and side: "part_label p = ''left side'' \<or> part_label p = ''right side''"
  shows
    "(let width = (if self_outside self \<and> self_include_back self
                   then adjustSize (self_y self) else self_y self);
          horizontal_cut =
            nominal_horizontal_cut (snd (render adjustSize self)) (self_h self);
          top = border_lengths (wall_borders p) ! 3
      in (width < horizontal_cut \<longrightarrow> top = 1) \<and>
         (horizontal_cut \<le> width \<longrightarrow> top = width - horizontal_cut) \<and>
         0 \<le> top \<and>
         (1 \<le> width \<longrightarrow> top \<le> width))"
proof -
  let ?s = "snd (render adjustSize self)"
  let ?w = "used_depth adjustSize self"
  have b: "wall_borders p = sloped_borders ?s ?w (self_h self)"
    using sloped_side_panel_borders [OF ok fresh sloped p side] .
  have top: "border_lengths (wall_borders p) ! 3 = ?w - final_horizontal_cut ?s ?w (self_h self)"
    by (simp add: b sloped_borders_def)
  have "sin (math_radians (self_angle self)) \<noteq> 0"
    using ok sloped by (simp add: render_returns_iff)
  then have "sin (self_radians ?s) \<noteq> 0"
    by (simp add: render_returns [OF ok])
  then have nn: "0 \<le> nominal_horizontal_cut ?s (self_h self)"
    by (rule nominal_horizontal_cut_nonneg)
  have w: "?w = (if self_outside self \<and> self_include_back self
                 then adjustSize (self_y self) else self_y self)"
    by (simp add: used_depth_def)
  show ?thesis
    unfolding Let_def top w [symmetric]
    using nn by (auto simp add: final_horizontal_cut_def)
qed

lemma example_sloped_fields [simp]:
  "self_x example_sloped = 400" "self_y example_sloped = 100" "self_h example_sloped = 300"
  "self_outside example_sloped" "self_thickness example_sloped = 3"
  "self_num example_sloped = 3" "self_front_wall_height example_sloped = 20"
  "self_angle example_sloped = 30" "\<not> self_include_back example_sloped"
  "self_slope_top example_sloped" "self_parts example_sloped = []"
  by (simp_all add: example_sloped_def)

lemma example_sloped_returns: "fst (render adjustSize example_sloped) = None"
  by (simp add: render_returns_iff math_radians_30 cos_30 sin_30)

lemma example_sloped_parts:
  "self_parts (snd (render adjustSize example_sloped)) =
     sloped_sides (resolved adjustSize example_sloped) 100 300
       @ shelf_parts (resolved adjustSize example_sloped)"
  by (simp add: render_returns [OF example_sloped_returns] side_parts_def back_parts_def
      used_depth_def)

lemma example_sloped_nominal:
  "nominal_horizontal_cut (snd (render adjustSize example_sloped)) 300 = sqrt 19200"
  by (simp add: render_returns [OF example_sloped_returns] nominal_horizontal_cut_def
      nominal_hypotenuse_def nominal_vertical_cut_def math_radians_30 sin_30)

lemma example_sloped_shrinks:
  "100 < nominal_horizontal_cut (snd (render adjustSize example_sloped)) 300"
proof -
  have "(100::real) ^ 2 < 19200" by simp
  then have "(100::real) < sqrt 19200" by (rule real_less_rsqrt)
  then show ?thesis by (simp add: example_sloped_nominal)
qed

theorem sloped_top_edge_witness:
  "fst (render example_adjustSize example_sloped) = None \<and>
   self_parts example_sloped = [] \<and>
   self_slope_top example_sloped \<and>
   hd (self_parts (snd (render example_adjustSize example_sloped)))
     \<in> set (self_parts (snd (render example_adjustSize example_sloped))) \<and>
   part_label (hd (self_parts (snd (render example_adjustSize example_sloped)))) = ''left side'' \<and>
   100 < nominal_horizontal_cut (snd (render example_adjustSize example_sloped)) 300 \<and>
   border_lengths (wall_borders (hd (self_parts (snd (render example_adjustSize example_sloped)))))
     ! 3 = 1"
proof -
  let ?p = "hd (self_parts (snd (render example_adjustSize example_sloped)))"
  have ok: "fst (render example_adjustSize example_sloped) = None"
    by (rule example_sloped_returns)
  have fresh: "self_parts example_sloped = []" by simp
  have sloped: "self_slope_top example_sloped" by simp
  have pin: "?p \<in> set (self_parts (snd (render example_adjustSize example_sloped)))"
    by (simp add: example_sloped_parts sloped_sides_def Let_def)
  have lab: "part_label ?p = ''left side''"
    by (simp add: example_sloped_parts sloped_sides_def Let_def)
  from lab have side: "part_label ?p = ''left side'' \<or> part_label ?p = ''right side''" ..
  have big: "100 < nominal_horizontal_cut (snd (render example_adjustSize example_sloped)) 300"
    by (rule example_sloped_shrinks)
  from sloped_top_edge [OF ok fresh sloped pin side] big
  have top: "border_lengths (wall_borders ?p) ! 3 = 1"
    by (simp add: Let_def)
  show ?thesis by (intro conjI ok fresh sloped pin lab big top)
qed

text \<open>
  C4 as stated fails at the example with sloped sides: the nominal horizontal cut exceeds the
  width 100, and the top edges of both side panels are 1 long, not 99.
\<close>

theorem sloped_top_edge_counterexample:
  "self_slope_top example_sloped \<and>
   fst (render example_adjustSize example_sloped) = None \<and>
   self_y example_sloped = 100 \<and>
   self_y example_sloped
     < nominal_horizontal_cut (snd (render example_adjustSize example_sloped))
         (self_h example_sloped) \<and>
   map (\<lambda>p. border_lengths (wall_borders p) ! 3)
     (take 2 (self_parts (snd (render example_adjustSize example_sloped)))) = [1, 1] \<and>
   map part_label (take 2 (self_parts (snd (render example_adjustSize example_sloped))))
     = [''left side'', ''right side''] \<and>
   (1::real) \<noteq> self_y example_sloped - 1"
proof -
  have big: "100 < nominal_horizontal_cut (snd (render example_adjustSize example_sloped)) 300"
    by (rule example_sloped_shrinks)
  then have "100 < nominal_horizontal_cut (resolved example_adjustSize example_sloped) 300"
    by (simp add: render_returns [OF example_sloped_returns])
  then have tops: "map (\<lambda>p. border_lengths (wall_borders p) ! 3)
      (take 2 (self_parts (snd (render example_adjustSize example_sloped)))) = [1, 1]"
    by (simp add: example_sloped_parts sloped_sides_def Let_def sloped_borders_def
        final_horizontal_cut_def)
  have labels: "map part_label
      (take 2 (self_parts (snd (render example_adjustSize example_sloped))))
      = [''left side'', ''right side'']"
    by (simp add: example_sloped_parts sloped_sides_def Let_def)
  show ?thesis
    using big tops labels by (simp add: example_sloped_returns)
qed

subsection \<open>The boundary of a sloped side\<close>




lemma seat_hole_y:
  assumes "i < nat (self_num self)"
  shows "hole_y (generate_finger_holes self ! (2 * i)) =
     (self_sl self + self_thickness self) * sin (self_radians self)
       + cos (self_radians self) * self_thickness self
       - cos (self_radians self) * 0.5 * self_thickness self
       + real i * (self_h self
                    - \<bar>(self_sl self + self_thickness self) * sin (self_radians self)
                        + cos (self_radians self) * self_thickness self\<bar>)
           / (real_of_int (self_num self) - 0.5)
       + (if self_radians self < 0 then - sin (self_radians self) * self_sl self else 0)"
proof -
  have i': "i < length (py_range (self_num self))"
    using assms by (simp add: length_py_range)
  have ix: "py_range (self_num self) ! i = i"
    using assms by (simp add: py_range_nth)
  from finger_holes_loop_nth [OF i', THEN conjunct1] ix
  have "generate_finger_holes self ! (2 * i) =
      finger_holes_at_index self
        ((self_sl self + self_thickness self) * sin (self_radians self)
           + cos (self_radians self) * self_thickness self) i ! 0"
    by (simp add: generate_finger_holes_def Let_def)
  then show ?thesis
    by (simp add: finger_holes_at_index_def Let_def)
qed

lemma example_backward_fields [simp]:
  "self_x example_backward = 400" "self_y example_backward = 100"
  "self_h example_backward = 300" "self_outside example_backward"
  "self_thickness example_backward = 3" "self_num example_backward = 3"
  "self_front_wall_height example_backward = 20" "self_angle example_backward = - 30"
  "\<not> self_include_back example_backward" "\<not> self_slope_top example_backward"
  "self_parts example_backward = []"
  by (simp_all add: example_backward_def)

lemma math_radians_minus_30: "math_radians (- 30) = - (pi / 6)"
  by (simp add: math_radians_def)

lemma example_backward_returns: "fst (render adjustSize example_backward) = None"
  by (simp add: render_returns_iff math_radians_minus_30 cos_30)

lemma example_backward_parts:
  "self_parts (snd (render adjustSize example_backward)) =
     rectangular_sides adjustSize example_backward
       @ shelf_parts (resolved adjustSize example_backward)"
  by (simp add: render_returns [OF example_backward_returns] side_parts_def back_parts_def)

text \<open>The slant lengths of the two examples, and their seats.\<close>

lemma example_shelf_sl:
  "self_sl (snd (render adjustSize example_shelf)) = (180 - 6 * (sqrt 3 / 2 + 1 / 2)) / sqrt 3"
  "self_sl (resolved adjustSize example_shelf) = (180 - 6 * (sqrt 3 / 2 + 1 / 2)) / sqrt 3"
  by (simp_all add: render_returns [OF example_shelf_returns] resolved_def Let_def
      used_depth_def math_radians_30 cos_30 sin_30)

lemma example_backward_sl:
  "self_sl (snd (render adjustSize example_backward))
     = (200 - 6 * (sqrt 3 / 2 + 1 / 2)) / sqrt 3"
  "self_sl (resolved adjustSize example_backward)
     = (200 - 6 * (sqrt 3 / 2 + 1 / 2)) / sqrt 3"
  by (simp_all add: render_returns [OF example_backward_returns] resolved_def Let_def
      used_depth_def math_radians_minus_30 cos_30 sin_30)

lemma example_shelf_seat:
  assumes "i < 3"
  shows "seat_pos_y adjustSize example_shelf i =
     (self_sl (resolved adjustSize example_shelf) + 3) * (1 / 2) + sqrt 3 / 2 * 3
       - sqrt 3 / 2 * 0.5 * 3
       + real i * (300 - \<bar>(self_sl (resolved adjustSize example_shelf) + 3) * (1 / 2)
                              + sqrt 3 / 2 * 3\<bar>) / (3 - 0.5)"
proof -
  have cb: "part_callback (hd (self_parts (snd (render adjustSize example_shelf))))
      = generate_finger_holes (resolved adjustSize example_shelf)"
    by (simp add: example_shelf_parts rectangular_sides_def Let_def)
  have i: "i < nat (self_num (resolved adjustSize example_shelf))"
    using assms by simp
  show ?thesis
    unfolding seat_pos_y_def cb seat_hole_y [OF i]
    by (simp add: math_radians_30 cos_30 sin_30)
qed

lemma example_backward_seat:
  assumes "i < 3"
  shows "seat_pos_y adjustSize example_backward i =
     - ((self_sl (resolved adjustSize example_backward) + 3) * (1 / 2)) + sqrt 3 / 2 * 3
       - sqrt 3 / 2 * 0.5 * 3
       + real i * (300 - \<bar>- ((self_sl (resolved adjustSize example_backward) + 3) * (1 / 2))
                              + sqrt 3 / 2 * 3\<bar>) / (3 - 0.5)
       + (1 / 2) * self_sl (resolved adjustSize example_backward)"
proof -
  have cb: "part_callback (hd (self_parts (snd (render adjustSize example_backward))))
      = generate_finger_holes (resolved adjustSize example_backward)"
    by (simp add: example_backward_parts rectangular_sides_def Let_def)
  have i: "i < nat (self_num (resolved adjustSize example_backward))"
    using assms by simp
  have neg: "- (pi / 6) < 0" by simp
  show ?thesis
    unfolding seat_pos_y_def cb seat_hole_y [OF i]
    using neg by (simp add: math_radians_minus_30 cos_30 sin_30)
qed

lemma example_shelf_sl_pos: "0 < self_sl (snd (render adjustSize example_shelf))"
proof -
  have "sqrt 3 < 2" by (rule real_less_lsqrt) simp_all
  then have "0 < 180 - 6 * (sqrt 3 / 2 + 1 / 2)" by simp
  then show ?thesis by (simp add: example_shelf_sl)
qed

lemma example_backward_sl_pos: "0 < self_sl (snd (render adjustSize example_backward))"
proof -
  have "sqrt 3 < 2" by (rule real_less_lsqrt) simp_all
  then have "0 < 200 - 6 * (sqrt 3 / 2 + 1 / 2)" by simp
  then show ?thesis by (simp add: example_backward_sl)
qed

subsection \<open>Slanting backwards in the example\<close>

text \<open>
  C7, as the code has it. In the example, for every shelf index \<open>i\<close>, the \<open>pos_y\<close> of the
  shelf seat with \<open>angle = -30\<close> is the value \<open>hs - cos radians * 0.5 * thickness +
  i * (h - \<bar>hs\<bar>) / (num - 0.5)\<close> of that same run plus \<open>sin 30\<degree> * slant_length\<close>, with the
  slant length of that run. Against the run with \<open>angle = 30\<close> it is the \<open>pos_y\<close> of that
  run less \<open>sin 30\<degree> * (slant_length + 2 * thickness)\<close>, with the slant length of the run
  with \<open>angle = 30\<close>, plus \<open>i * (\<bar>hs\<bar> - \<bar>hs'\<bar>) / (num - 0.5)\<close>, where \<open>hs\<close> and \<open>hs'\<close>
  are the offsets of the runs with 30 and with -30.
\<close>

theorem seat_shift_backward:
  assumes "i < 3"
  shows
    "(let sl = self_sl (snd (render adjustSize example_shelf));
          sl' = self_sl (snd (render adjustSize example_backward));
          hs = (sl + 3) * sin (30 * pi / 180) + cos (30 * pi / 180) * 3;
          hs' = (sl' + 3) * sin (- 30 * pi / 180) + cos (- 30 * pi / 180) * 3
      in seat_pos_y adjustSize example_backward i =
           hs' - cos (- 30 * pi / 180) * 0.5 * 3 + real i * (300 - \<bar>hs'\<bar>) / (3 - 0.5)
             + sin (30 * pi / 180) * sl' \<and>
         seat_pos_y adjustSize example_backward i =
           seat_pos_y adjustSize example_shelf i - sin (30 * pi / 180) * (sl + 2 * 3)
             + real i * (\<bar>hs\<bar> - \<bar>hs'\<bar>) / (3 - 0.5))"
proof -
  have s: "sin (30 * pi / 180) = 1 / 2" "cos (30 * pi / 180) = sqrt 3 / 2"
    by (simp_all add: sin_30 cos_30)
  have s': "sin (- 30 * pi / 180) = - (1 / 2)" "cos (- 30 * pi / 180) = sqrt 3 / 2"
    by (simp_all add: sin_30 cos_30)
  show ?thesis
    unfolding Let_def s s' example_backward_seat [OF assms] example_shelf_seat [OF assms]
    by (simp add: render_returns [OF example_shelf_returns]
        render_returns [OF example_backward_returns] field_simps)
qed

theorem seat_shift_backward_witness:
  "(1::nat) < 3 \<and>
   (let sl = self_sl (snd (render example_adjustSize example_shelf));
        sl' = self_sl (snd (render example_adjustSize example_backward));
        hs = (sl + 3) * sin (30 * pi / 180) + cos (30 * pi / 180) * 3;
        hs' = (sl' + 3) * sin (- 30 * pi / 180) + cos (- 30 * pi / 180) * 3
    in seat_pos_y example_adjustSize example_backward 1 =
         hs' - cos (- 30 * pi / 180) * 0.5 * 3 + real 1 * (300 - \<bar>hs'\<bar>) / (3 - 0.5)
           + sin (30 * pi / 180) * sl' \<and>
       seat_pos_y example_adjustSize example_backward 1 =
         seat_pos_y example_adjustSize example_shelf 1 - sin (30 * pi / 180) * (sl + 2 * 3)
           + real 1 * (\<bar>hs\<bar> - \<bar>hs'\<bar>) / (3 - 0.5))"
proof -
  have i: "(1::nat) < 3" by simp
  note th = seat_shift_backward [OF i, of example_adjustSize]
  show ?thesis by (intro conjI i th)
qed

text \<open>
  C7 as stated fails at the index 0: the seat of the run with \<open>angle = -30\<close> lies below the
  seat of the run with \<open>angle = 30\<close>, so it is not that seat plus \<open>sin 30\<degree>\<close> times a slant
  length, whichever of the two slant lengths is meant.
\<close>

theorem seat_shift_counterexample:
  "seat_pos_y example_adjustSize example_backward 0
     < seat_pos_y example_adjustSize example_shelf 0 \<and>
   seat_pos_y example_adjustSize example_backward 0 \<noteq>
     seat_pos_y example_adjustSize example_shelf 0
       + sin (30 * pi / 180) * self_sl (snd (render example_adjustSize example_shelf)) \<and>
   seat_pos_y example_adjustSize example_backward 0 \<noteq>
     seat_pos_y example_adjustSize example_shelf 0
       + sin (30 * pi / 180) * self_sl (snd (render example_adjustSize example_backward))"
proof -
  let ?P = "self_sl (snd (render example_adjustSize example_shelf))"
  let ?M = "self_sl (snd (render example_adjustSize example_backward))"
  have P: "0 < ?P" by (rule example_shelf_sl_pos)
  have M: "0 < ?M" by (rule example_backward_sl_pos)
  have z: "(0::nat) < 3" by simp
  have b: "seat_pos_y example_adjustSize example_backward 0 = - (3 / 2) + 3 * sqrt 3 / 4"
    unfolding example_backward_seat [OF z] by (simp add: field_simps)
  have f: "seat_pos_y example_adjustSize example_shelf 0 = (?P + 3) / 2 + 3 * sqrt 3 / 4"
    unfolding example_shelf_seat [OF z]
    by (simp add: render_returns [OF example_shelf_returns] field_simps)
  have s: "sin (30 * pi / 180) = 1 / 2" by (simp add: sin_30)
  show ?thesis
    unfolding b f s using P M by (auto simp add: field_simps)
qed

end
